theory Spec2Isabelle
  imports Complex_Main "HOL-Library.Word"
begin

section \<open>Device link: \<open>modules/serial_connection.py\<close>\<close>

text \<open>
  The class \<open>SerialConnection\<close> owns one pyserial transport. The transport is modelled by
  what the class observes of it (\<open>is_open\<close>) and by the log of the \<open>write\<close> calls made
  on it, one entry of the log per call. Python exceptions are values of \<open>error\<close>; a
  method returns its outcome together with the object as the call leaves it, because a
  method that raises keeps the assignments it made before the raise.
\<close>

type_synonym byte = "8 word"

datatype error =
    AttributeError string  \<comment> \<open>the attribute that was looked up and is missing\<close>
  | ValueError
  | ZeroDivisionError

text \<open>The lines the class prints, kept as data: the f-strings are not rendered.\<close>

datatype message =
    Setting_timeout bool
  | Setting_mode string
  | Unknown_mode string
  | Sending_RGB int int int
  | Starting_thread

record transport =
  is_open :: bool
  written :: "byte list list"

text \<open>
  The attribute \<open>thread\<close> is created by \<open>start_thread\<close> only, so it is optional
  (\<open>hasattr(self, 'thread')\<close>); its value records \<open>is_alive()\<close>. The field \<open>console\<close>
  is standard output.
\<close>

record serial_connection =
  arduino :: "transport option"
  port :: string
  baudrate :: int
  stop_thread :: bool
  debug :: bool
  thread :: "bool option"
  console :: "message list"

type_synonym 'a outcome = "error + 'a"

text \<open>\<open>SerialConnection.__init__(port, baudrate=9600, debug=False)\<close>.\<close>

definition init_serial :: "string \<Rightarrow> int \<Rightarrow> bool \<Rightarrow> serial_connection" where
  "init_serial p b d =
     \<lparr>arduino = None, port = p, baudrate = b, stop_thread = False, debug = d,
      thread = None, console = []\<rparr>"

text \<open>
  \<open>bytes([...])\<close> of a list of Python integers: \<open>ValueError\<close> unless every element is in
  \<open>range(0, 256)\<close>.
\<close>

definition py_bytes :: "int list \<Rightarrow> byte list outcome" where
  "py_bytes xs =
     (if list_all (\<lambda>x. 0 \<le> x \<and> x < 256) xs then Inr (map word_of_int xs)
      else Inl ValueError)"

text \<open>The guard \<open>not self.arduino or not self.arduino.is_open\<close> shared by the senders.\<close>

definition link_closed :: "serial_connection \<Rightarrow> bool" where
  "link_closed self = (case arduino self of None \<Rightarrow> True | Some a \<Rightarrow> \<not> is_open a)"

text \<open>\<open>self.arduino.write(data)\<close>: one call, one entry of the log.\<close>

definition arduino_write :: "serial_connection \<Rightarrow> byte list \<Rightarrow> serial_connection" where
  "arduino_write self bs =
     (case arduino self of
        None \<Rightarrow> self
      | Some a \<Rightarrow> self\<lparr>arduino := Some (a\<lparr>written := written a @ [bs]\<rparr>)\<rparr>)"

definition print_line :: "serial_connection \<Rightarrow> message \<Rightarrow> serial_connection" where
  "print_line self m = self\<lparr>console := console self @ [m]\<rparr>"

definition debug_print :: "serial_connection \<Rightarrow> message \<Rightarrow> serial_connection" where
  "debug_print self m = (if debug self then print_line self m else self)"

text \<open>The bytes the transport has been given so far, one list per \<open>write\<close> call.\<close>

definition wire :: "serial_connection \<Rightarrow> byte list list" where
  "wire self = (case arduino self of None \<Rightarrow> [] | Some a \<Rightarrow> written a)"

definition send_timeout :: "serial_connection \<Rightarrow> bool \<Rightarrow> unit outcome \<times> serial_connection" where
  "send_timeout self enabled =
     (if link_closed self then (Inr (), self)
      else
        let val = (if enabled then 1 else 0);
            self1 = debug_print self (Setting_timeout enabled)
        in (case py_bytes [0x01, val] of
              Inl e \<Rightarrow> (Inl e, self1)
            | Inr bs \<Rightarrow> (Inr (), arduino_write self1 bs)))"

definition modes :: "(string \<times> int) list" where
  "modes =
     [(''OFF'', 0), (''Solid'', 0), (''Fade'', 1), (''Cycle'', 2),
      (''Rainbow Cycle'', 3), (''Breathing'', 4), (''Random'', 5)]"

definition set_mode :: "serial_connection \<Rightarrow> string \<Rightarrow> unit outcome \<times> serial_connection" where
  "set_mode self mode =
     (if link_closed self then (Inr (), self)
      else
        (case map_of modes mode of
           Some code \<Rightarrow>
             let self1 = debug_print self (Setting_mode mode)
             in (case py_bytes [0x02, code] of
                   Inl e \<Rightarrow> (Inl e, self1)
                 | Inr bs \<Rightarrow> (Inr (), arduino_write self1 bs))
         | None \<Rightarrow> (Inr (), print_line self (Unknown_mode mode))))"

definition send_color ::
  "serial_connection \<Rightarrow> int \<Rightarrow> int \<Rightarrow> int \<Rightarrow> unit outcome \<times> serial_connection" where
  "send_color self red green blue =
     (if link_closed self then (Inr (), self)
      else
        let self1 = debug_print self (Sending_RGB red green blue)
        in (case py_bytes [0x03, red, green, blue] of
              Inl e \<Rightarrow> (Inl e, self1)
            | Inr bs \<Rightarrow> (Inr (), arduino_write self1 bs)))"

text \<open>
  \<open>start_thread\<close>: nothing on a closed link; otherwise a reader thread is created unless
  one exists and is alive.
\<close>

definition start_thread :: "serial_connection \<Rightarrow> serial_connection" where
  "start_thread self =
     (if link_closed self then self
      else if thread self = None \<or> thread self = Some False then
        debug_print (self\<lparr>thread := Some True, stop_thread := False\<rparr>) Starting_thread
      else self)"

text \<open>
  \<open>connect\<close> opens a fresh transport unless one is open; opening is taken to succeed
  (\<open>serial.Serial\<close> raising is a failure of the environment). \<open>disconnect\<close> closes an
  open transport.
\<close>

definition connect :: "serial_connection \<Rightarrow> serial_connection" where
  "connect self =
     (if link_closed self then self\<lparr>arduino := Some \<lparr>is_open = True, written = []\<rparr>\<rparr>
      else self)"

definition disconnect :: "serial_connection \<Rightarrow> serial_connection" where
  "disconnect self =
     (case arduino self of
        None \<Rightarrow> self
      | Some a \<Rightarrow> if is_open a then self\<lparr>arduino := Some (a\<lparr>is_open := False\<rparr>)\<rparr> else self)"

text \<open>
  \<open>close\<close>, statement by statement:
  \<^item> \<open>self.stop_thread = True\<close>;
  \<^item> \<open>self.thread.join()\<close>: \<open>AttributeError\<close> when the attribute \<open>thread\<close> does not
    exist; otherwise the reader, whose loop tests \<open>stop_thread\<close>, is taken to end, and
    \<open>join\<close> returns;
  \<^item> \<open>self.arduino.close()\<close>: \<open>AttributeError\<close> when \<open>arduino\<close> is \<open>None\<close>;
  \<^item> \<open>del SerialConnection._instance\<close>: the class body declares no attribute
    \<open>_instance\<close> and no statement of the repository assigns one, so the \<open>del\<close> raises
    \<open>AttributeError\<close>.
\<close>

definition close :: "serial_connection \<Rightarrow> unit outcome \<times> serial_connection" where
  "close self =
     (let self1 = self\<lparr>stop_thread := True\<rparr>
      in (case thread self1 of
            None \<Rightarrow> (Inl (AttributeError ''thread''), self1)
          | Some _ \<Rightarrow>
              let self2 = self1\<lparr>thread := Some False\<rparr>
              in (case arduino self2 of
                    None \<Rightarrow> (Inl (AttributeError ''close''), self2)
                  | Some a \<Rightarrow>
                      let self3 = self2\<lparr>arduino := Some (a\<lparr>is_open := False\<rparr>)\<rparr>
                      in (Inl (AttributeError ''_instance''), self3))))"

section \<open>Audio reactive engine: \<open>modules/audio_visualizer.py\<close>\<close>

text \<open>
  Python floats are modelled by real numbers with exact arithmetic: rounding of the
  floating-point operations, infinities and NaN are outside the model. The fields that
  hold the PyAudio stream, the Matplotlib figure and the animation timer belong to the
  environment and are left out; \<open>serial_conn\<close> is the connection object shared with the
  main window, which the methods below take and return. Both engines have a field
  \<open>running\<close>; it is \<open>av_running\<close> here and \<open>sr_running\<close> in the screen engine.
\<close>

record audio_visualizer =
  av_running :: bool
  CHUNK :: int
  RATE :: int
  current_bass :: real
  current_mid :: real
  current_treble :: real
  max_bass :: real
  max_mid :: real
  max_treble :: real
  FADE_THRESHOLD :: real
  NOISE_GATE_THRESHOLD :: real
  DECAY_TIME :: int

text \<open>\<open>AudioVisualizer.__init__(master, serial_conn, chunk=1024, rate=44100, type)\<close>.\<close>

definition init_audio :: "int \<Rightarrow> int \<Rightarrow> audio_visualizer" where
  "init_audio chunk rate =
     \<lparr>av_running = False, CHUNK = chunk, RATE = rate,
      current_bass = 0, current_mid = 0, current_treble = 0,
      max_bass = 1, max_mid = 1, max_treble = 1,
      FADE_THRESHOLD = 0.05, NOISE_GATE_THRESHOLD = 0.02, DECAY_TIME = 1\<rparr>"

text \<open>Python's \<open>int(x)\<close> of a float: truncation towards zero.\<close>

definition py_int :: "real \<Rightarrow> int" where
  "py_int x = (if x < 0 then \<lceil>x\<rceil> else \<lfloor>x\<rfloor>)"

text \<open>The local function \<open>amplitude_to_rgb(level, multiplier=1, min_rgb=25)\<close>.\<close>

definition amplitude_to_rgb :: "real \<Rightarrow> real \<Rightarrow> int \<Rightarrow> int" where
  "amplitude_to_rgb level multiplier min_rgb =
     (if level \<le> 0.05 then 0
      else
        let rgb_value = py_int (of_int min_rgb + (of_int (255 - min_rgb) * level * multiplier))
        in max 0 (min 255 rgb_value))"

definition audio_to_rgb :: "real \<Rightarrow> real \<Rightarrow> real \<Rightarrow> int \<times> int \<times> int" where
  "audio_to_rgb bass_level mid_level treble_level =
     (let red = amplitude_to_rgb bass_level 1.2 25;
          green = amplitude_to_rgb mid_level 1 25;
          blue = amplitude_to_rgb treble_level 1 25
      in (red, green, blue))"

text \<open>
  The value the source names \<open>decay_rate\<close>, \<open>1 - (1 / (self.RATE * self.DECAY_TIME))\<close>:
  \<open>ZeroDivisionError\<close> when the product of the two integers is zero.
\<close>

definition decay_rate :: "audio_visualizer \<Rightarrow> real outcome" where
  "decay_rate self =
     (if RATE self * DECAY_TIME self = 0 then Inl ZeroDivisionError
      else Inr (1 - (1 / of_int (RATE self * DECAY_TIME self))))"

text \<open>
  The noise gate and decay of \<open>update\<close> (the three \<open>if\<close>/\<open>else\<close> blocks), given the
  value of \<open>decay_rate\<close> and the three measured band levels.
\<close>

definition gate_levels :: "audio_visualizer \<Rightarrow> real \<Rightarrow> real \<times> real \<times> real \<Rightarrow> audio_visualizer" where
  "gate_levels self d levels =
     (case levels of (bass_level, mid_level, treble_level) \<Rightarrow>
        let self1 =
              (if bass_level > NOISE_GATE_THRESHOLD self
               then self\<lparr>current_bass := bass_level,
                         max_bass := max (max_bass self) bass_level\<rparr>
               else self\<lparr>current_bass := max (current_bass self - d) 0\<rparr>);
            self2 =
              (if mid_level > NOISE_GATE_THRESHOLD self1
               then self1\<lparr>current_mid := mid_level,
                          max_mid := max (max_mid self1) mid_level\<rparr>
               else self1\<lparr>current_mid := max (current_mid self1 - d) 0\<rparr>);
            self3 =
              (if treble_level > NOISE_GATE_THRESHOLD self2
               then self2\<lparr>current_treble := treble_level,
                          max_treble := max (max_treble self2) treble_level\<rparr>
               else self2\<lparr>current_treble := max (current_treble self2 - d) 0\<rparr>)
        in self3)"

text \<open>
  \<open>update(frame)\<close> from the point where the three band levels have been measured: the
  stream read and the transform that produce them are inputs. A division by a running
  maximum of zero is written out as \<open>ZeroDivisionError\<close>; no engine built by
  \<open>__init__\<close> gets there, as \<open>update_returns\<close> below shows. The result is the
  outcome, the engine and the shared connection. Drawing the bars is left out.
\<close>

definition update ::
  "audio_visualizer \<Rightarrow> serial_connection \<Rightarrow> real \<times> real \<times> real \<Rightarrow>
     unit outcome \<times> audio_visualizer \<times> serial_connection" where
  "update self conn levels =
     (case decay_rate self of
        Inl e \<Rightarrow> (Inl e, self, conn)
      | Inr d \<Rightarrow>
          let self1 = gate_levels self d levels
          in if max_bass self1 = 0 \<or> max_mid self1 = 0 \<or> max_treble self1 = 0
             then (Inl ZeroDivisionError, self1, conn)
             else
               let normalized_bass = current_bass self1 / max_bass self1;
                   normalized_mid = current_mid self1 / max_mid self1;
                   normalized_treble = current_treble self1 / max_treble self1;
                   compressed_mid = min (normalized_mid * 1.2) 1.0;
                   compressed_treble = min (normalized_treble * 1.5) 1.0
               in if normalized_bass > FADE_THRESHOLD self1 \<or>
                     compressed_mid > FADE_THRESHOLD self1 \<or>
                     compressed_treble > FADE_THRESHOLD self1
                  then
                    (case audio_to_rgb normalized_bass compressed_mid compressed_treble of
                       (red, green, blue) \<Rightarrow>
                         (case send_color conn red green blue of
                            (r, conn1) \<Rightarrow> (r, self1, conn1)))
                  else (Inr (), self1, conn))"

text \<open>A run of ticks, one triple of measured levels per tick, stopping at the first raise.\<close>

fun run_updates ::
  "audio_visualizer \<Rightarrow> serial_connection \<Rightarrow> (real \<times> real \<times> real) list \<Rightarrow>
     unit outcome \<times> audio_visualizer \<times> serial_connection" where
  "run_updates self conn [] = (Inr (), self, conn)"
| "run_updates self conn (l # ls) =
     (case update self conn l of
        (Inl e, self1, conn1) \<Rightarrow> (Inl e, self1, conn1)
      | (Inr _, self1, conn1) \<Rightarrow> run_updates self1 conn1 ls)"

text \<open>\<open>start\<close>, \<open>stop\<close> and \<open>is_running\<close>, as far as the engine's own fields go.\<close>

definition start_audio :: "audio_visualizer \<Rightarrow> audio_visualizer" where
  "start_audio self = self\<lparr>av_running := True\<rparr>"

definition stop_audio :: "audio_visualizer \<Rightarrow> audio_visualizer" where
  "stop_audio self = self\<lparr>av_running := False\<rparr>"

definition is_running_audio :: "audio_visualizer \<Rightarrow> bool" where
  "is_running_audio self = av_running self"

section \<open>Screen reactive engine: \<open>modules/screen_responsive.py\<close>\<close>

record screen_responsive =
  sr_running :: bool
  fps :: int
  frame_interval :: real
  snapshot :: "(int \<times> int \<times> int \<times> int) option"

text \<open>\<open>ScreenResponsive.__init__(conn, fps=10)\<close>; \<open>1.0 / self.fps\<close> raises on zero.\<close>

definition init_screen :: "int \<Rightarrow> screen_responsive outcome" where
  "init_screen f =
     (if f = 0 then Inl ZeroDivisionError
      else Inr \<lparr>sr_running = False, fps = f, frame_interval = 1.0 / of_int f,
                snapshot = None\<rparr>)"

text \<open>The first statement of \<open>core\<close>, run by the thread that \<open>start\<close> spawns.\<close>

definition core_enter :: "screen_responsive \<Rightarrow> screen_responsive" where
  "core_enter self = self\<lparr>sr_running := True\<rparr>"

definition stop_screen ::
  "screen_responsive \<Rightarrow> serial_connection \<Rightarrow>
     unit outcome \<times> screen_responsive \<times> serial_connection" where
  "stop_screen self conn =
     (case set_mode conn ''OFF'' of
        (Inl e, conn1) \<Rightarrow> (Inl e, self, conn1)
      | (Inr _, conn1) \<Rightarrow> (Inr (), self\<lparr>sr_running := False\<rparr>, conn1))"

definition is_running_screen :: "screen_responsive \<Rightarrow> bool" where
  "is_running_screen self = sr_running self"

section \<open>Mode coordinator: \<open>main.py\<close>\<close>

text \<open>
  The fields of the main window that the tab switch reads and writes. \<open>conn\<close> is the one
  connection object that both engines hold a reference to; \<open>visualizer\<close> is optional
  because \<open>unactiveTab\<close> tests \<open>hasattr(self, 'visualizer')\<close>; \<open>selected_button\<close>
  holds the text of the selected pattern button; \<open>screen\<close> is the attribute
  \<open>screen_responsive\<close>, which \<open>__init__\<close> always sets.
\<close>

record main_window =
  R :: int
  G :: int
  B :: int
  selected_button :: "string option"
  conn :: serial_connection
  screen :: screen_responsive
  visualizer :: "audio_visualizer option"

definition unactiveTab :: "main_window \<Rightarrow> unit outcome \<times> main_window" where
  "unactiveTab self =
     (case set_mode (conn self) ''OFF'' of
        (Inl e, c1) \<Rightarrow> (Inl e, self\<lparr>conn := c1\<rparr>)
      | (Inr _, c1) \<Rightarrow>
          let self1 = self\<lparr>conn := c1\<rparr>;
              self2 =
                (case visualizer self1 of
                   None \<Rightarrow> self1
                 | Some v \<Rightarrow>
                     if is_running_audio v then self1\<lparr>visualizer := Some (stop_audio v)\<rparr>
                     else self1)
          in if is_running_screen (screen self2)
             then
               (case stop_screen (screen self2) (conn self2) of
                  (r, s, c2) \<Rightarrow> (r, self2\<lparr>screen := s, conn := c2\<rparr>))
             else (Inr (), self2))"

text \<open>The \<open>if\<close>/\<open>elif\<close> chain of \<open>on_tab_changed\<close> that follows \<open>self.unactiveTab()\<close>.\<close>

definition activate_tab :: "main_window \<Rightarrow> int \<Rightarrow> unit outcome \<times> main_window" where
  "activate_tab self index =
     (if index = 0 then
        (case send_timeout (conn self) False of
           (Inl e, c1) \<Rightarrow> (Inl e, self\<lparr>conn := c1\<rparr>)
         | (Inr _, c1) \<Rightarrow>
             (case send_color c1 (R self) (G self) (B self) of
                (r, c2) \<Rightarrow> (r, self\<lparr>conn := c2\<rparr>)))
      else if index = 1 then
        (case send_timeout (conn self) False of
           (Inl e, c1) \<Rightarrow> (Inl e, self\<lparr>conn := c1\<rparr>)
         | (Inr _, c1) \<Rightarrow>
             (case selected_button self of
                None \<Rightarrow> (Inr (), self\<lparr>conn := c1\<rparr>)
              | Some label \<Rightarrow>
                  (case set_mode c1 label of (r, c2) \<Rightarrow> (r, self\<lparr>conn := c2\<rparr>))))
      else if index = 2 then
        (case send_timeout (conn self) True of
           (Inl e, c1) \<Rightarrow> (Inl e, self\<lparr>conn := c1\<rparr>)
         | (Inr _, c1) \<Rightarrow>
             (case visualizer self of
                None \<Rightarrow> (Inl (AttributeError ''visualizer''), self\<lparr>conn := c1\<rparr>)
              | Some v \<Rightarrow>
                  (Inr (), self\<lparr>conn := c1, visualizer := Some (start_audio v)\<rparr>)))
      else (Inr (), self))"

definition on_tab_changed :: "main_window \<Rightarrow> int \<Rightarrow> unit outcome \<times> main_window" where
  "on_tab_changed self index =
     (case unactiveTab self of
        (Inl e, self1) \<Rightarrow> (Inl e, self1)
      | (Inr _, self1) \<Rightarrow> activate_tab self1 index)"

text \<open>Whether an engine of the window reports itself running.\<close>

definition engine_running :: "main_window \<Rightarrow> bool" where
  "engine_running self =
     ((case visualizer self of None \<Rightarrow> False | Some v \<Rightarrow> is_running_audio v) \<or>
      is_running_screen (screen self))"

section \<open>Auxiliary predicates\<close>

text \<open>
  The invariant of the band levels: no current level exceeds its running maximum, and no
  running maximum is below the value it is constructed with.
\<close>

definition levels_ok :: "audio_visualizer \<Rightarrow> bool" where
  "levels_ok self =
     (current_bass self \<le> max_bass self \<and> 1 \<le> max_bass self \<and>
      current_mid self \<le> max_mid self \<and> 1 \<le> max_mid self \<and>
      current_treble self \<le> max_treble self \<and> 1 \<le> max_treble self)"

section \<open>Properties of the device link\<close>

lemma wire_arduino_write:
  "\<not> link_closed self \<Longrightarrow> wire (arduino_write self bs) = wire self @ [bs]"
  by (auto simp: link_closed_def wire_def arduino_write_def split: option.splits)

lemma wire_print_line [simp]: "wire (print_line self m) = wire self"
  by (simp add: wire_def print_line_def)

lemma wire_debug_print [simp]: "wire (debug_print self m) = wire self"
  by (simp add: debug_print_def)

lemma link_closed_print_line [simp]: "link_closed (print_line self m) = link_closed self"
  by (simp add: link_closed_def print_line_def)

lemma link_closed_debug_print [simp]: "link_closed (debug_print self m) = link_closed self"
  by (simp add: debug_print_def)

lemma link_closed_arduino_write [simp]:
  "link_closed (arduino_write self bs) = link_closed self"
  by (simp add: link_closed_def arduino_write_def split: option.splits)

lemma link_open_iff: "\<not> link_closed self \<longleftrightarrow> (\<exists>a. arduino self = Some a \<and> is_open a)"
  by (simp add: link_closed_def split: option.splits)

lemma wire_open: "arduino self = Some a \<Longrightarrow> wire self = written a"
  by (simp add: wire_def)

text \<open>
  Claim C3. On an open link, \<open>send_color(r, g, b)\<close> with the three channels in
  \<open>[0, 255]\<close> returns normally and makes exactly one \<open>write\<close>, of the four bytes
  \<open>0x03, r, g, b\<close>: the log of writes grows by that one entry, and read back as unsigned
  numbers the bytes are \<open>3, r, g, b\<close>.
\<close>

theorem send_color_encoding:
  assumes "arduino self = Some a" and "is_open a"
    and "0 \<le> r" "r \<le> 255" "0 \<le> g" "g \<le> 255" "0 \<le> b" "b \<le> 255"
  shows "fst (send_color self r g b) = Inr () \<and>
         wire (snd (send_color self r g b)) =
           written a @ [[0x03, word_of_int r, word_of_int g, word_of_int b]] \<and>
         map uint [0x03 :: byte, word_of_int r, word_of_int g, word_of_int b] = [3, r, g, b]"
proof -
  from assms(1,2) have op: "\<not> link_closed self"
    by (simp add: link_closed_def)
  from assms(1) have w: "wire self = written a"
    by (rule wire_open)
  from assms(3-) op w show ?thesis
    by (simp add: send_color_def py_bytes_def Let_def wire_arduino_write uint_word_of_int)
qed

theorem send_color_encoding_witness:
  "fst (send_color (connect (init_serial ''COM11'' 9600 False)) 255 0 128) = Inr () \<and>
   wire (snd (send_color (connect (init_serial ''COM11'' 9600 False)) 255 0 128)) =
     [[0x03, 255, 0, 128]]"
  using send_color_encoding
    [of "connect (init_serial ''COM11'' 9600 False)" "\<lparr>is_open = True, written = []\<rparr>" 255 0 128]
  by (simp add: connect_def init_serial_def link_closed_def)

text \<open>
  Claim C4. On an open link, \<open>set_mode(name)\<close> returns normally; for each of the seven
  known names it makes exactly one \<open>write\<close>, of the two bytes \<open>0x02, code\<close> with the
  code of the table (OFF 0, Solid 0, Fade 1, Cycle 2, Rainbow Cycle 3, Breathing 4,
  Random 5), and for every other name it writes nothing.
\<close>

theorem set_mode_encoding:
  assumes "arduino self = Some a" and "is_open a"
  shows "fst (set_mode self mode) = Inr () \<and>
         wire (snd (set_mode self mode)) =
           (if mode = ''OFF'' \<or> mode = ''Solid'' then written a @ [[0x02, 0]]
            else if mode = ''Fade'' then written a @ [[0x02, 1]]
            else if mode = ''Cycle'' then written a @ [[0x02, 2]]
            else if mode = ''Rainbow Cycle'' then written a @ [[0x02, 3]]
            else if mode = ''Breathing'' then written a @ [[0x02, 4]]
            else if mode = ''Random'' then written a @ [[0x02, 5]]
            else written a)"
proof -
  from assms have op: "\<not> link_closed self"
    by (simp add: link_closed_def)
  from assms(1) have w: "wire self = written a"
    by (rule wire_open)
  from op w show ?thesis
    by (simp add: set_mode_def modes_def py_bytes_def Let_def wire_arduino_write)
qed

theorem set_mode_encoding_witness:
  "wire (snd (set_mode (connect (init_serial ''COM11'' 9600 False)) ''Rainbow Cycle''))
     = [[0x02, 3]] \<and>
   wire (snd (set_mode (connect (init_serial ''COM11'' 9600 False)) ''rainbow'')) = []"
  using
    set_mode_encoding [of "connect (init_serial ''COM11'' 9600 False)"
      "\<lparr>is_open = True, written = []\<rparr>" "''Rainbow Cycle''"]
    set_mode_encoding [of "connect (init_serial ''COM11'' 9600 False)"
      "\<lparr>is_open = True, written = []\<rparr>" "''rainbow''"]
  by (simp add: connect_def init_serial_def link_closed_def)

text \<open>
  Claim C5. When the link is not open (there is no transport object, or the transport
  is closed), \<open>send_timeout\<close>, \<open>set_mode\<close> and \<open>send_color\<close> each return normally and
  leave the connection as it was: nothing is written, nothing is printed, nothing is
  raised, whatever the arguments.
\<close>

theorem closed_link_drops:
  assumes "arduino self = None \<or> (\<exists>a. arduino self = Some a \<and> \<not> is_open a)"
  shows "send_timeout self enabled = (Inr (), self) \<and>
         set_mode self mode = (Inr (), self) \<and>
         send_color self r g b = (Inr (), self)"
proof -
  from assms have "link_closed self"
    by (auto simp: link_closed_def)
  then show ?thesis
    by (simp add: send_timeout_def set_mode_def send_color_def)
qed

theorem closed_link_drops_witness:
  "send_timeout (init_serial ''COM11'' 9600 True) True
     = (Inr (), init_serial ''COM11'' 9600 True) \<and>
   set_mode (disconnect (connect (init_serial ''COM11'' 9600 True))) ''Fade''
     = (Inr (), disconnect (connect (init_serial ''COM11'' 9600 True))) \<and>
   send_color (disconnect (connect (init_serial ''COM11'' 9600 True))) 300 (- 1) 0
     = (Inr (), disconnect (connect (init_serial ''COM11'' 9600 True)))"
  using
    closed_link_drops [of "init_serial ''COM11'' 9600 True" True "''Fade''" 300 "- 1" 0]
    closed_link_drops [of "disconnect (connect (init_serial ''COM11'' 9600 True))"
      True "''Fade''" 300 "- 1" 0]
  by (simp add: connect_def disconnect_def init_serial_def link_closed_def)

text \<open>
  Claim C10. On an open link, \<open>send_color\<close> with a channel below 0 or above 255 raises
  \<open>ValueError\<close> from the construction of the bytes; the value is not clamped and nothing
  is written.
\<close>

theorem send_color_out_of_range:
  assumes "arduino self = Some a" and "is_open a"
    and "r < 0 \<or> 255 < r \<or> g < 0 \<or> 255 < g \<or> b < 0 \<or> 255 < b"
  shows "fst (send_color self r g b) = Inl ValueError \<and>
         wire (snd (send_color self r g b)) = written a"
proof -
  from assms(1,2) have op: "\<not> link_closed self"
    by (simp add: link_closed_def)
  from assms(1) have w: "wire self = written a"
    by (rule wire_open)
  from assms(3) op w show ?thesis
    by (auto simp: send_color_def py_bytes_def Let_def)
qed

theorem send_color_out_of_range_witness:
  "fst (send_color (connect (init_serial ''COM11'' 9600 False)) 256 0 0) = Inl ValueError \<and>
   wire (snd (send_color (connect (init_serial ''COM11'' 9600 False)) 256 0 0)) = []"
  using send_color_out_of_range
    [of "connect (init_serial ''COM11'' 9600 False)" "\<lparr>is_open = True, written = []\<rparr>" 256 0 0]
  by (simp add: connect_def init_serial_def link_closed_def)

text \<open>
  Claim C9. \<open>close()\<close> never returns normally: every call raises \<open>AttributeError\<close>. When
  the attribute \<open>thread\<close> does not exist, the error comes from \<open>self.thread.join()\<close>;
  when the thread and the transport both exist, every statement before the last runs and
  the error comes from \<open>del SerialConnection._instance\<close>.
\<close>

theorem close_raises:
  "(\<exists>a. fst (close self) = Inl (AttributeError a)) \<and>
   (thread self = None \<longrightarrow> fst (close self) = Inl (AttributeError ''thread'')) \<and>
   (thread self \<noteq> None \<and> arduino self \<noteq> None \<longrightarrow>
      fst (close self) = Inl (AttributeError ''_instance''))"
  by (auto simp: close_def Let_def split: option.splits)

theorem close_raises_witness:
  "fst (close (connect (init_serial ''COM11'' 9600 False)))
     = Inl (AttributeError ''thread'') \<and>
   fst (close (start_thread (connect (init_serial ''COM11'' 9600 False))))
     = Inl (AttributeError ''_instance'')"
  using close_raises [of "connect (init_serial ''COM11'' 9600 False)"]
    close_raises [of "start_thread (connect (init_serial ''COM11'' 9600 False))"]
  by (simp add: connect_def init_serial_def start_thread_def link_closed_def debug_print_def)

section \<open>Properties of the audio reactive engine\<close>

subsection \<open>The decay value and the gate\<close>

lemma inverse_int_le_one:
  fixes n :: int
  assumes "n \<noteq> 0"
  shows "1 / (of_int n :: real) \<le> 1"
proof (cases "0 < n")
  case True
  then have "(1::real) \<le> of_int n"
    by linarith
  then show ?thesis
    by (simp add: divide_le_eq_1)
next
  case False
  with assms have "n < 0" by simp
  then have "(of_int n :: real) < 0"
    by (simp only: of_int_less_0_iff)
  then have "1 / (of_int n :: real) < 0"
    by (simp only: divide_less_0_1_iff)
  then show ?thesis by linarith
qed

lemma decay_rate_nonneg:
  assumes "decay_rate self = Inr d"
  shows "0 \<le> d"
proof -
  define n where "n = RATE self * DECAY_TIME self"
  from assms have n: "n \<noteq> 0" and d: "d = 1 - 1 / of_int n"
    unfolding decay_rate_def n_def [symmetric] by (simp_all split: if_splits)
  from inverse_int_le_one [OF n] d show ?thesis
    by linarith
qed

text \<open>What \<open>gate_levels\<close> leaves in each field, one band at a time.\<close>

lemma gate_levels_max_bass:
  "max_bass (gate_levels self d (b, m, t)) =
     (if b > NOISE_GATE_THRESHOLD self then max (max_bass self) b else max_bass self)"
  by (cases "b > NOISE_GATE_THRESHOLD self"; cases "m > NOISE_GATE_THRESHOLD self";
      cases "t > NOISE_GATE_THRESHOLD self"; simp add: gate_levels_def)

lemma gate_levels_max_mid:
  "max_mid (gate_levels self d (b, m, t)) =
     (if m > NOISE_GATE_THRESHOLD self then max (max_mid self) m else max_mid self)"
  by (cases "b > NOISE_GATE_THRESHOLD self"; cases "m > NOISE_GATE_THRESHOLD self";
      cases "t > NOISE_GATE_THRESHOLD self"; simp add: gate_levels_def)

lemma gate_levels_max_treble:
  "max_treble (gate_levels self d (b, m, t)) =
     (if t > NOISE_GATE_THRESHOLD self then max (max_treble self) t else max_treble self)"
  by (cases "b > NOISE_GATE_THRESHOLD self"; cases "m > NOISE_GATE_THRESHOLD self";
      cases "t > NOISE_GATE_THRESHOLD self"; simp add: gate_levels_def)

lemma gate_levels_current_bass:
  "current_bass (gate_levels self d (b, m, t)) =
     (if b > NOISE_GATE_THRESHOLD self then b else max (current_bass self - d) 0)"
  by (cases "b > NOISE_GATE_THRESHOLD self"; cases "m > NOISE_GATE_THRESHOLD self";
      cases "t > NOISE_GATE_THRESHOLD self"; simp add: gate_levels_def)

lemma gate_levels_current_mid:
  "current_mid (gate_levels self d (b, m, t)) =
     (if m > NOISE_GATE_THRESHOLD self then m else max (current_mid self - d) 0)"
  by (cases "b > NOISE_GATE_THRESHOLD self"; cases "m > NOISE_GATE_THRESHOLD self";
      cases "t > NOISE_GATE_THRESHOLD self"; simp add: gate_levels_def)

lemma gate_levels_current_treble:
  "current_treble (gate_levels self d (b, m, t)) =
     (if t > NOISE_GATE_THRESHOLD self then t else max (current_treble self - d) 0)"
  by (cases "b > NOISE_GATE_THRESHOLD self"; cases "m > NOISE_GATE_THRESHOLD self";
      cases "t > NOISE_GATE_THRESHOLD self"; simp add: gate_levels_def)

lemmas gate_levels_fields =
  gate_levels_max_bass gate_levels_max_mid gate_levels_max_treble
  gate_levels_current_bass gate_levels_current_mid gate_levels_current_treble

lemma gate_levels_consts [simp]:
  "FADE_THRESHOLD (gate_levels self d l) = FADE_THRESHOLD self"
  "NOISE_GATE_THRESHOLD (gate_levels self d l) = NOISE_GATE_THRESHOLD self"
  "RATE (gate_levels self d l) = RATE self"
  "DECAY_TIME (gate_levels self d l) = DECAY_TIME self"
  "CHUNK (gate_levels self d l) = CHUNK self"
  "av_running (gate_levels self d l) = av_running self"
proof -
  obtain b m t where l: "l = (b, m, t)"
    by (cases l) auto
  have "FADE_THRESHOLD (gate_levels self d l) = FADE_THRESHOLD self \<and>
        NOISE_GATE_THRESHOLD (gate_levels self d l) = NOISE_GATE_THRESHOLD self \<and>
        RATE (gate_levels self d l) = RATE self \<and>
        DECAY_TIME (gate_levels self d l) = DECAY_TIME self \<and>
        CHUNK (gate_levels self d l) = CHUNK self \<and>
        av_running (gate_levels self d l) = av_running self"
    unfolding l
    by (cases "b > NOISE_GATE_THRESHOLD self"; cases "m > NOISE_GATE_THRESHOLD self";
        cases "t > NOISE_GATE_THRESHOLD self"; simp add: gate_levels_def)
  then show
    "FADE_THRESHOLD (gate_levels self d l) = FADE_THRESHOLD self"
    "NOISE_GATE_THRESHOLD (gate_levels self d l) = NOISE_GATE_THRESHOLD self"
    "RATE (gate_levels self d l) = RATE self"
    "DECAY_TIME (gate_levels self d l) = DECAY_TIME self"
    "CHUNK (gate_levels self d l) = CHUNK self"
    "av_running (gate_levels self d l) = av_running self"
    by blast+
qed

lemma gate_levels_ok:
  assumes "levels_ok self" "0 \<le> d"
  shows "levels_ok (gate_levels self d l)"
proof (cases l)
  case (fields b m t)
  from assms show ?thesis
    unfolding fields levels_ok_def gate_levels_fields by auto
qed

lemma gate_levels_max_mono:
  "max_bass self \<le> max_bass (gate_levels self d l)"
  "max_mid self \<le> max_mid (gate_levels self d l)"
  "max_treble self \<le> max_treble (gate_levels self d l)"
  by (cases l; simp add: gate_levels_fields)+

subsection \<open>The colour mapping\<close>

lemma py_int_mono:
  assumes "x \<le> y"
  shows "py_int x \<le> py_int y"
proof (cases "y < 0")
  case True
  with assms have "x < 0" by linarith
  with True assms show ?thesis
    by (simp add: py_int_def ceiling_mono)
next
  case ynn: False
  show ?thesis
  proof (cases "x < 0")
    case True
    then have "\<lceil>x\<rceil> \<le> 0"
      by (simp add: ceiling_le_iff)
    moreover from ynn have "0 \<le> \<lfloor>y\<rfloor>"
      by (simp add: le_floor_iff)
    ultimately have "\<lceil>x\<rceil> \<le> \<lfloor>y\<rfloor>"
      by (rule order_trans)
    with True ynn show ?thesis
      by (simp only: py_int_def if_True if_False)
  next
    case False
    with ynn assms show ?thesis
      by (simp add: py_int_def floor_mono)
  qed
qed

lemma py_int_nonneg: "0 \<le> x \<Longrightarrow> py_int x = \<lfloor>x\<rfloor>"
  by (simp add: py_int_def)

lemma amplitude_to_rgb_range:
  "0 \<le> amplitude_to_rgb l k n \<and> amplitude_to_rgb l k n \<le> 255"
  by (simp add: amplitude_to_rgb_def Let_def)

lemma amplitude_to_rgb_floor:
  assumes "0 \<le> k"
  shows "amplitude_to_rgb l k 25 =
           (if l \<le> 0.05 then 0 else max 0 (min 255 \<lfloor>25 + 230 * l * k\<rfloor>))"
proof (cases "l \<le> 0.05")
  case True
  then show ?thesis by (simp add: amplitude_to_rgb_def)
next
  case False
  then have "0 \<le> l" by simp
  with assms have "0 \<le> 25 + 230 * l * k" by simp
  then have "py_int (25 + 230 * l * k) = \<lfloor>25 + 230 * l * k\<rfloor>"
    by (rule py_int_nonneg)
  with False show ?thesis
    by (simp add: amplitude_to_rgb_def)
qed

lemma amplitude_to_rgb_mono:
  assumes "0 \<le> k" "0.05 < l1" "l1 \<le> l2"
  shows "amplitude_to_rgb l1 k 25 \<le> amplitude_to_rgb l2 k 25"
proof -
  from assms have "l1 * k \<le> l2 * k"
    by (simp add: mult_right_mono)
  then have "25 + 230 * l1 * k \<le> 25 + 230 * l2 * k"
    by simp
  then have "\<lfloor>25 + 230 * l1 * k\<rfloor> \<le> \<lfloor>25 + 230 * l2 * k\<rfloor>"
    by (rule floor_mono)
  with assms show ?thesis
    by (simp add: amplitude_to_rgb_floor)
qed

lemma audio_to_rgb_channels:
  "fst (audio_to_rgb b m t) = amplitude_to_rgb b 1.2 25"
  "fst (snd (audio_to_rgb b m t)) = amplitude_to_rgb m 1 25"
  "snd (snd (audio_to_rgb b m t)) = amplitude_to_rgb t 1 25"
  by (simp_all add: audio_to_rgb_def)

text \<open>
  Claim C7, as the source has it. Each channel is 0 for a level of at most 0.05;
  above that it is \<open>25 + (255 - 25) * level * multiplier\<close> cut down to an integer by
  \<open>int(...)\<close>, which drops the fraction (the value is positive, so this is the floor),
  and then clamped to \<open>[0, 255]\<close>; the multiplier is 1.2 for bass and 1.0 for mid and
  treble. The value is truncated, not rounded to the nearest integer.
\<close>

theorem audio_to_rgb_truncates:
  "audio_to_rgb bass mid treble =
     (if bass \<le> 0.05 then 0 else max 0 (min 255 \<lfloor>25 + (255 - 25) * bass * 1.2\<rfloor>),
      if mid \<le> 0.05 then 0 else max 0 (min 255 \<lfloor>25 + (255 - 25) * mid * 1.0\<rfloor>),
      if treble \<le> 0.05 then 0 else max 0 (min 255 \<lfloor>25 + (255 - 25) * treble * 1.0\<rfloor>))"
  by (simp add: audio_to_rgb_def amplitude_to_rgb_floor)

theorem audio_to_rgb_truncates_witness:
  "audio_to_rgb (1 / 50) (1 / 8) 1 = (0, 53, 255)"
  using audio_to_rgb_truncates [of "1 / 50" "1 / 8" 1]
  by simp

text \<open>
  Claim C7, as the specification words it, fails at the mid level \<open>1/8\<close>: the exact
  value is \<open>25 + 230 / 8 = 53.75\<close>, which the code maps to 53 where rounding gives 54.
\<close>

theorem audio_to_rgb_round_counterexample:
  "fst (snd (audio_to_rgb 0 (1 / 8) 0)) = 53 \<and>
   max 0 (min 255 (round (25 + (255 - 25) * (1 / 8) * 1.0 :: real))) = (54 :: int)"
  by (simp add: audio_to_rgb_def amplitude_to_rgb_def py_int_def round_def)

text \<open>
  Claim C8. Each of the three channels is exactly 0 for a level of at most 0.05, and
  above 0.05 a channel never decreases when its level increases, whatever the other two
  levels are.
\<close>

theorem rgb_channels_monotone:
  "(l \<le> 0.05 \<longrightarrow>
      fst (audio_to_rgb l x y) = 0 \<and>
      fst (snd (audio_to_rgb x l y)) = 0 \<and>
      snd (snd (audio_to_rgb x y l)) = 0) \<and>
   (0.05 < l1 \<and> l1 \<le> l2 \<longrightarrow>
      fst (audio_to_rgb l1 x y) \<le> fst (audio_to_rgb l2 x' y') \<and>
      fst (snd (audio_to_rgb x l1 y)) \<le> fst (snd (audio_to_rgb x' l2 y')) \<and>
      snd (snd (audio_to_rgb x y l1)) \<le> snd (snd (audio_to_rgb x' y' l2)))"
proof (intro conjI impI)
  assume "l \<le> 0.05"
  then show "fst (audio_to_rgb l x y) = 0" "fst (snd (audio_to_rgb x l y)) = 0"
    "snd (snd (audio_to_rgb x y l)) = 0"
    by (simp_all add: audio_to_rgb_channels amplitude_to_rgb_def)
next
  assume "0.05 < l1 \<and> l1 \<le> l2"
  then have a: "0.05 < l1" "l1 \<le> l2" by simp_all
  show "fst (audio_to_rgb l1 x y) \<le> fst (audio_to_rgb l2 x' y')"
    unfolding audio_to_rgb_channels using a by (intro amplitude_to_rgb_mono) simp_all
  show "fst (snd (audio_to_rgb x l1 y)) \<le> fst (snd (audio_to_rgb x' l2 y'))"
    unfolding audio_to_rgb_channels using a by (intro amplitude_to_rgb_mono) simp_all
  show "snd (snd (audio_to_rgb x y l1)) \<le> snd (snd (audio_to_rgb x' y' l2))"
    unfolding audio_to_rgb_channels using a by (intro amplitude_to_rgb_mono) simp_all
qed

theorem rgb_channels_monotone_witness:
  "fst (audio_to_rgb (1 / 50) 0 0) = 0 \<and>
   fst (audio_to_rgb (1 / 8) 0 0) \<le> fst (audio_to_rgb (1 / 2) 1 1) \<and>
   fst (audio_to_rgb (1 / 8) 0 0) = 59 \<and> fst (audio_to_rgb (1 / 2) 1 1) = 163"
  using rgb_channels_monotone [of "1 / 50" 0 0 "1 / 8" "1 / 2" 1 1]
  by (simp add: audio_to_rgb_def amplitude_to_rgb_def py_int_def)

subsection \<open>One tick and runs of ticks\<close>

lemma send_color_rgb_ok:
  assumes "0 \<le> r" "r \<le> 255" "0 \<le> g" "g \<le> 255" "0 \<le> b" "b \<le> 255"
  shows "fst (send_color c r g b) = Inr ()"
  using assms by (simp add: send_color_def py_bytes_def Let_def)

lemma update_state:
  assumes "decay_rate self = Inr d"
  shows "fst (snd (update self c l)) = gate_levels self d l"
  using assms
  by (simp add: update_def Let_def split: prod.splits)

lemma update_state_raise:
  assumes "decay_rate self = Inl e"
  shows "update self c l = (Inl e, self, c)"
  using assms by (simp add: update_def)

lemma update_ok:
  assumes "levels_ok self"
  shows "levels_ok (fst (snd (update self c l)))"
proof (cases "decay_rate self")
  case (Inl e)
  with assms show ?thesis by (simp add: update_state_raise)
next
  case (Inr d)
  with assms show ?thesis
    by (simp add: update_state gate_levels_ok decay_rate_nonneg)
qed

lemma update_max_mono:
  "max_bass self \<le> max_bass (fst (snd (update self c l)))"
  "max_mid self \<le> max_mid (fst (snd (update self c l)))"
  "max_treble self \<le> max_treble (fst (snd (update self c l)))"
  by (cases "decay_rate self"; simp add: update_state update_state_raise gate_levels_max_mono)+

lemma emit_returns:
  "fst (case audio_to_rgb x y z of
          (red, green, blue) \<Rightarrow>
            (case send_color c red green blue of (r, c1) \<Rightarrow> (r, s, c1))) = Inr ()"
  by (simp add: audio_to_rgb_def case_prod_beta send_color_rgb_ok amplitude_to_rgb_range)

lemma update_returns:
  assumes "levels_ok self" "RATE self * DECAY_TIME self \<noteq> 0"
  shows "fst (update self c l) = Inr ()"
proof -
  from assms(2) obtain d where d: "decay_rate self = Inr d"
    by (simp add: decay_rate_def)
  then have "0 \<le> d" by (rule decay_rate_nonneg)
  with assms(1) have "levels_ok (gate_levels self d l)"
    by (simp add: gate_levels_ok)
  then have nz: "max_bass (gate_levels self d l) \<noteq> 0" "max_mid (gate_levels self d l) \<noteq> 0"
    "max_treble (gate_levels self d l) \<noteq> 0"
    by (simp_all add: levels_ok_def)
  show ?thesis
    unfolding update_def d sum.case Let_def
    using nz by (simp add: emit_returns)
qed

lemma init_audio_ok: "levels_ok (init_audio chunk rate)"
  by (simp add: levels_ok_def init_audio_def)

lemma update_RATE:
  "RATE (fst (snd (update self c l))) = RATE self"
  "DECAY_TIME (fst (snd (update self c l))) = DECAY_TIME self"
  by (cases "decay_rate self"; simp add: update_state update_state_raise)+

lemma run_updates_ok:
  assumes "levels_ok self"
  shows "levels_ok (fst (snd (run_updates self c ls)))"
  using assms
proof (induction ls arbitrary: self c)
  case Nil
  then show ?case by simp
next
  case (Cons l ls)
  obtain r self1 c1 where u: "update self c l = (r, self1, c1)"
    by (cases "update self c l") auto
  from Cons.prems have ok1: "levels_ok self1"
    using update_ok [of self c l] by (simp add: u)
  show ?case
  proof (cases r)
    case (Inl e)
    with ok1 show ?thesis by (simp add: u)
  next
    case (Inr x)
    with Cons.IH [OF ok1] show ?thesis by (simp add: u)
  qed
qed

lemma run_updates_returns:
  assumes "levels_ok self" "RATE self * DECAY_TIME self \<noteq> 0"
  shows "fst (run_updates self c ls) = Inr () \<and>
         RATE (fst (snd (run_updates self c ls))) = RATE self \<and>
         DECAY_TIME (fst (snd (run_updates self c ls))) = DECAY_TIME self"
  using assms
proof (induction ls arbitrary: self c)
  case Nil
  then show ?case by simp
next
  case (Cons l ls)
  obtain r self1 c1 where u: "update self c l = (r, self1, c1)"
    by (cases "update self c l") auto
  from Cons.prems have r: "r = Inr ()"
    using update_returns [of self c l] by (simp add: u)
  from Cons.prems have ok1: "levels_ok self1"
    using update_ok [of self c l] by (simp add: u)
  have same: "RATE self1 = RATE self" "DECAY_TIME self1 = DECAY_TIME self"
    using update_RATE [of self c l] by (simp_all add: u)
  with Cons.prems have nz1: "RATE self1 * DECAY_TIME self1 \<noteq> 0"
    by simp
  from Cons.IH [OF ok1 nz1, of c1] same show ?case
    by (simp add: u r)
qed

lemma levels_ok_ratio:
  assumes "levels_ok self"
  shows "current_bass self / max_bass self \<le> 1"
    and "current_mid self / max_mid self \<le> 1"
    and "current_treble self / max_treble self \<le> 1"
  using assms by (simp_all add: levels_ok_def divide_le_eq_1)

text \<open>
  Claim C6. Take an engine as \<open>__init__\<close> builds it, any sequence of ticks with any
  measured levels, and one more tick. After that tick, for each of the three bands the
  current level divided by the running maximum is at most 1, and the running maximum is
  not below what it was before the tick; \<open>start\<close> and \<open>stop\<close> leave the running maxima
  alone. When the sample rate is not zero, no tick raises.
\<close>

theorem normalized_levels_bounded:
  assumes "run_updates (init_audio chunk rate) c ls = (r, self, c1)"
    and "update self c1 l = (r', self', c2)"
  shows "current_bass self' / max_bass self' \<le> 1 \<and>
         current_mid self' / max_mid self' \<le> 1 \<and>
         current_treble self' / max_treble self' \<le> 1 \<and>
         max_bass self \<le> max_bass self' \<and>
         max_mid self \<le> max_mid self' \<and>
         max_treble self \<le> max_treble self' \<and>
         (max_bass (stop_audio self'), max_mid (stop_audio self'), max_treble (stop_audio self'))
           = (max_bass self', max_mid self', max_treble self') \<and>
         (max_bass (start_audio self'), max_mid (start_audio self'), max_treble (start_audio self'))
           = (max_bass self', max_mid self', max_treble self') \<and>
         (rate \<noteq> 0 \<longrightarrow> r = Inr () \<and> r' = Inr ())"
proof -
  have ok: "levels_ok self"
    using run_updates_ok [OF init_audio_ok, of chunk rate c ls] by (simp add: assms(1))
  then have ok': "levels_ok self'"
    using update_ok [of self c1 l] by (simp add: assms(2))
  have ret: "r = Inr () \<and> r' = Inr ()" if "rate \<noteq> 0"
  proof -
    from that have nz: "RATE (init_audio chunk rate) * DECAY_TIME (init_audio chunk rate) \<noteq> 0"
      by (simp add: init_audio_def)
    from run_updates_returns [OF init_audio_ok nz, of c ls]
    have b: "r = Inr ()" and nz': "RATE self * DECAY_TIME self \<noteq> 0"
      using nz by (simp_all add: assms(1))
    from update_returns [OF ok nz', of c1 l] b show ?thesis
      by (simp add: assms(2))
  qed
  have mono: "max_bass self \<le> max_bass self'" "max_mid self \<le> max_mid self'"
    "max_treble self \<le> max_treble self'"
    using update_max_mono [of self c1 l] by (simp_all add: assms(2))
  have keep: "(max_bass (stop_audio self'), max_mid (stop_audio self'), max_treble (stop_audio self'))
           = (max_bass self', max_mid self', max_treble self')"
    "(max_bass (start_audio self'), max_mid (start_audio self'), max_treble (start_audio self'))
           = (max_bass self', max_mid self', max_treble self')"
    by (simp_all add: stop_audio_def start_audio_def)
  from levels_ok_ratio [OF ok'] mono keep ret show ?thesis
    by blast
qed

lemma first_tick:
  "update (init_audio 1024 44100) (init_serial ''COM11'' 9600 False) (1 / 2, 3, 1 / 100) =
     (Inr (),
      (init_audio 1024 44100)\<lparr>current_bass := 1 / 2, current_mid := 3, max_mid := 3\<rparr>,
      init_serial ''COM11'' 9600 False)"
  by (simp add: update_def decay_rate_def gate_levels_def init_audio_def audio_to_rgb_def
      amplitude_to_rgb_def py_int_def send_color_def link_closed_def init_serial_def)

lemma second_tick:
  "update ((init_audio 1024 44100)\<lparr>current_bass := 1 / 2, current_mid := 3, max_mid := 3\<rparr>)
     (init_serial ''COM11'' 9600 False) (1 / 100, 1 / 100, 1 / 100) =
     (Inr (),
      (init_audio 1024 44100)\<lparr>current_bass := 0, current_mid := 2 + 1 / 44100, max_mid := 3\<rparr>,
      init_serial ''COM11'' 9600 False)"
  by (simp add: update_def decay_rate_def gate_levels_def init_audio_def audio_to_rgb_def
      amplitude_to_rgb_def py_int_def send_color_def link_closed_def init_serial_def)

theorem normalized_levels_bounded_witness:
  "run_updates (init_audio 1024 44100) (init_serial ''COM11'' 9600 False) [(1 / 2, 3, 1 / 100)] =
     (Inr (),
      (init_audio 1024 44100)\<lparr>current_bass := 1 / 2, current_mid := 3, max_mid := 3\<rparr>,
      init_serial ''COM11'' 9600 False) \<and>
   update ((init_audio 1024 44100)\<lparr>current_bass := 1 / 2, current_mid := 3, max_mid := 3\<rparr>)
     (init_serial ''COM11'' 9600 False) (1 / 100, 1 / 100, 1 / 100) =
     (Inr (),
      (init_audio 1024 44100)\<lparr>current_bass := 0, current_mid := 2 + 1 / 44100, max_mid := 3\<rparr>,
      init_serial ''COM11'' 9600 False) \<and>
   (2 + 1 / 44100) / (3 :: real) \<le> 1 \<and> (44100 :: int) \<noteq> 0"
proof -
  have a: "run_updates (init_audio 1024 44100) (init_serial ''COM11'' 9600 False)
      [(1 / 2, 3, 1 / 100)] =
     (Inr (),
      (init_audio 1024 44100)\<lparr>current_bass := 1 / 2, current_mid := 3, max_mid := 3\<rparr>,
      init_serial ''COM11'' 9600 False)"
    by (simp add: first_tick)
  from normalized_levels_bounded [OF a second_tick] a second_tick show ?thesis
    by (simp add: init_audio_def)
qed

text \<open>
  Claim C1, on the code. The value that \<open>update\<close> subtracts from a gated band is
  \<open>1 - 1 / (RATE * DECAY_TIME)\<close>, for the constructed engine \<open>44099 / 44100\<close> and not
  \<open>1 / 44100\<close>: a bass level of \<open>1/2\<close>, followed by a tick below the noise gate, is 0
  after that tick, where a decay by \<open>1 / 44100\<close> would leave \<open>1/2 - 1/44100\<close>.
\<close>

theorem decay_subtracts_complement:
  "decay_rate (init_audio 1024 44100) = Inr (44099 / 44100) \<and>
   current_bass (fst (snd (run_updates (init_audio 1024 44100) (init_serial ''COM11'' 9600 False)
      [(1 / 2, 3, 1 / 100), (1 / 100, 1 / 100, 1 / 100)]))) = 0 \<and>
   current_bass (fst (snd (run_updates (init_audio 1024 44100) (init_serial ''COM11'' 9600 False)
      [(1 / 2, 3, 1 / 100), (1 / 100, 1 / 100, 1 / 100)]))) \<noteq> 1 / 2 - 1 / (44100 * 1)"
proof -
  have "decay_rate (init_audio 1024 44100) = Inr (44099 / 44100)"
    by (simp add: decay_rate_def init_audio_def)
  moreover have "current_bass (fst (snd (run_updates (init_audio 1024 44100)
      (init_serial ''COM11'' 9600 False)
      [(1 / 2, 3, 1 / 100), (1 / 100, 1 / 100, 1 / 100)]))) = 0"
    by (simp add: first_tick second_tick)
  ultimately show ?thesis by simp
qed

section \<open>Properties of the mode coordinator\<close>

lemma set_mode_OFF:
  "fst (set_mode c ''OFF'') = Inr ()"
  "wire (snd (set_mode c ''OFF'')) = wire c @ (if link_closed c then [] else [[0x02, 0]])"
  "link_closed (snd (set_mode c ''OFF'')) = link_closed c"
  by (simp_all add: set_mode_def modes_def py_bytes_def wire_arduino_write)

lemma send_timeout_extends: "\<exists>ws. wire (snd (send_timeout c e)) = wire c @ ws"
  by (simp add: send_timeout_def py_bytes_def wire_arduino_write)

lemma set_mode_extends: "\<exists>ws. wire (snd (set_mode c m)) = wire c @ ws"
  by (cases "link_closed c")
    (simp_all add: set_mode_def py_bytes_def wire_arduino_write Let_def
      split: option.splits)

lemma send_color_extends: "\<exists>ws. wire (snd (send_color c r g b)) = wire c @ ws"
  by (simp add: send_color_def py_bytes_def wire_arduino_write Let_def)

lemma stop_screen_OFF:
  "stop_screen s c = (Inr (), s\<lparr>sr_running := False\<rparr>, snd (set_mode c ''OFF''))"
  using set_mode_OFF(1) [of c]
  by (cases "set_mode c ''OFF''") (simp add: stop_screen_def)

lemma unactiveTab_result:
  "unactiveTab w =
     (Inr (),
      w\<lparr>conn := (if is_running_screen (screen w)
                  then snd (set_mode (snd (set_mode (conn w) ''OFF'')) ''OFF'')
                  else snd (set_mode (conn w) ''OFF'')),
         visualizer := map_option stop_audio (visualizer w),
         screen := (screen w)\<lparr>sr_running := False\<rparr>\<rparr>)"
  using set_mode_OFF(1) [of "conn w"]
  by (cases "set_mode (conn w) ''OFF''")
    (auto simp: unactiveTab_def stop_screen_OFF is_running_screen_def is_running_audio_def
      stop_audio_def Let_def split: option.splits)

lemma activate_tab_extends:
  "\<exists>ws. wire (conn (snd (activate_tab w index))) = wire (conn w) @ ws"
proof -
  obtain ws1 where t: "wire (snd (send_timeout (conn w) False)) = wire (conn w) @ ws1"
    using send_timeout_extends by blast
  obtain ws2 where t': "wire (snd (send_timeout (conn w) True)) = wire (conn w) @ ws2"
    using send_timeout_extends by blast
  obtain ws3 where c: "wire (snd (send_color (snd (send_timeout (conn w) False)) (R w) (G w) (B w)))
      = wire (snd (send_timeout (conn w) False)) @ ws3"
    using send_color_extends by blast
  have m: "\<exists>ws. wire (snd (set_mode (snd (send_timeout (conn w) False)) name))
      = wire (snd (send_timeout (conn w) False)) @ ws" for name
    using set_mode_extends by blast
  show ?thesis
  proof (cases "index = 0")
    case True
    with t c show ?thesis
      by (cases "send_timeout (conn w) False")
        (auto simp: activate_tab_def split: sum.splits prod.splits)
  next
    case n0: False
    show ?thesis
    proof (cases "index = 1")
      case True
      show ?thesis
      proof (cases "selected_button w")
        case None
        with True t show ?thesis
          by (cases "send_timeout (conn w) False")
            (auto simp: activate_tab_def split: sum.splits prod.splits)
      next
        case (Some name)
        from m [of name] obtain ws where
          "wire (snd (set_mode (snd (send_timeout (conn w) False)) name))
             = wire (snd (send_timeout (conn w) False)) @ ws" ..
        with Some True t show ?thesis
          by (cases "send_timeout (conn w) False")
            (auto simp: activate_tab_def split: sum.splits prod.splits)
      qed
    next
      case n1: False
      show ?thesis
      proof (cases "index = 2")
        case True
        with t' show ?thesis
          by (cases "send_timeout (conn w) True")
            (auto simp: activate_tab_def split: sum.splits prod.splits option.splits)
      next
        case False
        with n0 n1 show ?thesis by (simp add: activate_tab_def)
      qed
    qed
  qed
qed

text \<open>
  Claim C2. A tab switch first runs \<open>unactiveTab\<close>, which returns normally and leaves
  no engine reporting itself running, whichever engines were running before; on an open
  link it has by then written the mode command for Off (once, and once more for a
  running screen engine, whose \<open>stop\<close> sends it again). Only then does the switch
  activate the new mode, from that state, and everything the new mode writes comes after
  those bytes.
\<close>

theorem tab_switch_stops_engines:
  "\<exists>w1 ws.
     unactiveTab w = (Inr (), w1) \<and>
     \<not> engine_running w1 \<and>
     wire (conn w1) =
       wire (conn w) @
         (if link_closed (conn w) then []
          else if is_running_screen (screen w) then [[0x02, 0], [0x02, 0]]
          else [[0x02, 0]]) \<and>
     on_tab_changed w index = activate_tab w1 index \<and>
     wire (conn (snd (on_tab_changed w index))) = wire (conn w1) @ ws"
proof -
  define w1 where "w1 = snd (unactiveTab w)"
  have u: "unactiveTab w = (Inr (), w1)"
    unfolding w1_def by (simp add: unactiveTab_result)
  have stopped: "\<not> engine_running w1"
    unfolding w1_def
    by (simp add: unactiveTab_result engine_running_def is_running_screen_def
        is_running_audio_def stop_audio_def split: option.splits)
  have w: "wire (conn w1) =
       wire (conn w) @
         (if link_closed (conn w) then []
          else if is_running_screen (screen w) then [[0x02, 0], [0x02, 0]]
          else [[0x02, 0]])"
    unfolding w1_def by (simp add: unactiveTab_result set_mode_OFF)
  have o: "on_tab_changed w index = activate_tab w1 index"
    by (simp add: on_tab_changed_def u)
  from activate_tab_extends [of w1 index] obtain ws where
    "wire (conn (snd (activate_tab w1 index))) = wire (conn w1) @ ws" ..
  with u stopped w o show ?thesis
    by (intro exI [of _ w1] exI [of _ ws]) simp
qed

theorem tab_switch_stops_engines_witness:
  "engine_running
     \<lparr>R = 10, G = 20, B = 30, selected_button = None,
      conn = connect (init_serial ''COM11'' 9600 False),
      screen = \<lparr>sr_running = True, fps = 10, frame_interval = 1 / 10, snapshot = None\<rparr>,
      visualizer = Some (start_audio (init_audio 1024 44100))\<rparr> \<and>
   (\<exists>w1 ws.
      unactiveTab
        \<lparr>R = 10, G = 20, B = 30, selected_button = None,
         conn = connect (init_serial ''COM11'' 9600 False),
         screen = \<lparr>sr_running = True, fps = 10, frame_interval = 1 / 10, snapshot = None\<rparr>,
         visualizer = Some (start_audio (init_audio 1024 44100))\<rparr> = (Inr (), w1) \<and>
      \<not> engine_running w1 \<and>
      wire (conn w1) = [[0x02, 0], [0x02, 0]] \<and>
      wire (conn (snd (on_tab_changed
        \<lparr>R = 10, G = 20, B = 30, selected_button = None,
         conn = connect (init_serial ''COM11'' 9600 False),
         screen = \<lparr>sr_running = True, fps = 10, frame_interval = 1 / 10, snapshot = None\<rparr>,
         visualizer = Some (start_audio (init_audio 1024 44100))\<rparr> 0))) =
        wire (conn w1) @ ws)"
proof -
  let ?w = "\<lparr>R = 10, G = 20, B = 30, selected_button = None,
         conn = connect (init_serial ''COM11'' 9600 False),
         screen = \<lparr>sr_running = True, fps = 10, frame_interval = 1 / 10, snapshot = None\<rparr>,
         visualizer = Some (start_audio (init_audio 1024 44100))\<rparr>"
  have e: "engine_running ?w"
    by (simp add: engine_running_def is_running_screen_def)
  have l: "\<not> link_closed (conn ?w)" "is_running_screen (screen ?w)" "wire (conn ?w) = []"
    by (simp_all add: is_running_screen_def connect_def init_serial_def link_closed_def wire_def)
  from tab_switch_stops_engines [of ?w 0] obtain w1 ws where
    h: "unactiveTab ?w = (Inr (), w1)" "\<not> engine_running w1"
      "wire (conn w1) =
         wire (conn ?w) @
           (if link_closed (conn ?w) then []
            else if is_running_screen (screen ?w) then [[0x02, 0], [0x02, 0]]
            else [[0x02, 0]])"
      "wire (conn (snd (on_tab_changed ?w 0))) = wire (conn w1) @ ws"
    by blast
  from h(3) l have "wire (conn w1) = [[0x02, 0], [0x02, 0]]"
    by (simp only: if_True if_False append_Nil)
  with e h(1,2,4) show ?thesis
    by blast
qed

text \<open>The same switch, evaluated: the bytes on the wire, in order.\<close>

lemma tab_switch_example:
  "wire (conn (snd (on_tab_changed
     \<lparr>R = 10, G = 20, B = 30, selected_button = None,
      conn = connect (init_serial ''COM11'' 9600 False),
      screen = \<lparr>sr_running = True, fps = 10, frame_interval = 1 / 10, snapshot = None\<rparr>,
      visualizer = Some (start_audio (init_audio 1024 44100))\<rparr> 0))) =
   [[0x02, 0], [0x02, 0], [0x01, 0], [0x03, 10, 20, 30]]"
  by (simp add: on_tab_changed_def unactiveTab_result activate_tab_def
      send_timeout_def send_color_def set_mode_def modes_def py_bytes_def
      connect_def init_serial_def link_closed_def wire_def arduino_write_def debug_print_def
      is_running_screen_def)

end
